theory Spec2Isabelle
  imports Complex_Main "HOL-Library.Word" "HOL-Library.Log_Nat"
begin

section \<open>Python numbers\<close>

text \<open>
  The durations of \<open>main.py\<close> are Python floats (IEEE binary64). A float is modelled
  by the real number it denotes, and every float operation rounds its exact result
  to the nearest number with a 53-bit significand, ties to the even significand, as
  CPython does for \<open>int / int\<close>, \<open>float + float\<close> and \<open>float - float\<close>.
  The exponent range of binary64 (overflow to infinity, subnormal numbers) is not modelled:
  with granule positions of 64 bits and a sample rate of 48000 every quotient lies between
  \<open>2\<^sup>-\<^sup>1\<^sup>6\<close> and \<open>2\<^sup>4\<^sup>9\<close> in magnitude, far inside that range.
\<close>

text \<open>\<open>expo x\<close> is the binary exponent of a positive \<open>x\<close>: \<open>2\<^sup>e \<le> x < 2\<^sup>e\<^sup>+\<^sup>1\<close>.\<close>

definition expo :: "real \<Rightarrow> int" where
  "expo x = (if 1 \<le> x then bitlen \<lfloor>x\<rfloor> - 1 else - bitlen (\<lceil>1 / x\<rceil> - 1))"

text \<open>Rounding a non-negative number to the nearest integer, ties to even.\<close>

definition round_half_even :: "real \<Rightarrow> int" where
  "round_half_even y =
     (let n = \<lfloor>y\<rfloor>; r = y - of_int n
      in if r < 1 / 2 then n
         else if 1 / 2 < r then n + 1
         else if even n then n else n + 1)"

definition round_double :: "real \<Rightarrow> real" where
  "round_double x =
     (if x = 0 then 0
      else let u = 2 powi (expo \<bar>x\<bar> - 52)
           in sgn x * (of_int (round_half_even (\<bar>x\<bar> / u)) * u))"

text \<open>The values a Python float can hold.\<close>

definition is_float :: "real \<Rightarrow> bool" where
  "is_float x = (round_double x = x)"

definition float_add :: "real \<Rightarrow> real \<Rightarrow> real" where
  "float_add x y = round_double (x + y)"

definition float_sub :: "real \<Rightarrow> real \<Rightarrow> real" where
  "float_sub x y = round_double (x - y)"

text \<open>\<open>a / b\<close> on two Python ints, for \<open>b \<noteq> 0\<close>: the correctly rounded quotient.\<close>

definition int_truediv :: "int \<Rightarrow> int \<Rightarrow> real" where
  "int_truediv a b = round_double (of_int a / of_int b)"


section \<open>The data of \<open>main.py\<close>\<close>

type_synonym bytes = "8 word list"

text \<open>
  \<open>OggSFrame\<close> comes from the module \<open>extract_ogg\<close>. The code reads two things of a
  frame: \<open>frame.raw_data\<close> and \<open>frame.header['granule_position']\<close>. A frame object
  is taken to be truthy, as every Python object without \<open>__bool__\<close> and \<open>__len__\<close> is.
\<close>

record OggSFrame =
  raw_data :: bytes
  granule_position :: int

text \<open>
  The two entry points of \<open>extract_ogg\<close> that \<open>execute\<close> calls are parameters of the
  model. \<open>None\<close> stands for a call that raises.
\<close>

record extract_ogg =
  OggSFrame_init :: "bytes \<Rightarrow> OggSFrame option"
  get_header_frames :: "bytes \<Rightarrow> (OggSFrame option \<times> OggSFrame list option) option"

datatype exn = OggSFrameError | GetHeaderFramesError | ZeroDivisionError | IndexError

record DataPackage =
  data :: "bytes option"

record DataPackageModule =
  success :: bool
  message :: string

text \<open>The attributes of a \<open>CreateNsAudioPackage\<close> instance.\<close>

record CreateNsAudioPackage =
  audio_data_buffer :: "OggSFrame list"
  sample_rate :: int
  last_n_seconds :: int
  current_audio_buffer_seconds :: real
  header_buffer :: bytes
  header_frames :: "OggSFrame list option"

text \<open>The instance \<open>__init__\<close> builds.\<close>

definition init :: CreateNsAudioPackage where
  "init = \<lparr>audio_data_buffer = [], sample_rate = 48000, last_n_seconds = 10,
           current_audio_buffer_seconds = 0, header_buffer = [], header_frames = None\<rparr>"

text \<open>What a call of \<open>execute\<close> leaves behind: the exception it raised, if any, and the
  instance, the data package and the module record as they are when it ends.\<close>

record effect =
  raised :: "exn option"
  self_after :: CreateNsAudioPackage
  dp_after :: DataPackage
  dpm_after :: DataPackageModule

text \<open>Truth value of an optional list: \<open>None\<close> and the empty list are falsy.\<close>

definition truthy :: "'a list option \<Rightarrow> bool" where
  "truthy xs = (case xs of None \<Rightarrow> False | Some ys \<Rightarrow> ys \<noteq> [])"


section \<open>The operations\<close>

definition calculate_frame_duration :: "int \<Rightarrow> int option \<Rightarrow> int \<Rightarrow> exn + real" where
  "calculate_frame_duration current_granule_position previous_granule_position rate =
     (case previous_granule_position of
        None \<Rightarrow> Inr 0
      | Some previous \<Rightarrow>
          (let samples = current_granule_position - previous
           in if rate = 0 then Inl ZeroDivisionError
              else Inr (int_truediv samples rate)))"

text \<open>Lines 77 to 83: the eviction, once \<open>frame_duration > 0.0\<close>.\<close>

definition evict :: "CreateNsAudioPackage \<Rightarrow> exn option \<times> CreateNsAudioPackage" where
  "evict self =
     (if of_int (last_n_seconds self) \<le> current_audio_buffer_seconds self then
        (case audio_data_buffer self of
           [] \<Rightarrow> (Some IndexError, self)
         | pop_frame # rest \<Rightarrow>
             (let self1 = self\<lparr>audio_data_buffer := rest\<rparr>;
                  pop_frame_granule_position = granule_position pop_frame;
                  next_frame_granule_position =
                    (if length rest > 0 then granule_position (rest ! 0)
                     else pop_frame_granule_position)
              in case calculate_frame_duration next_frame_granule_position
                        (Some pop_frame_granule_position) (sample_rate self1) of
                   Inl e \<Rightarrow> (Some e, self1)
                 | Inr pop_frame_duration \<Rightarrow>
                     (None, self1\<lparr>current_audio_buffer_seconds :=
                        float_sub (current_audio_buffer_seconds self1) pop_frame_duration\<rparr>)))
      else (None, self))"

text \<open>Lines 63 to 89: duration of the frame, append, eviction and the new package.\<close>

definition append_frame ::
  "CreateNsAudioPackage \<Rightarrow> OggSFrame \<Rightarrow> DataPackage \<Rightarrow> DataPackageModule \<Rightarrow> effect" where
  "append_frame self frame dp dpm =
     (let last_frame = (if length (audio_data_buffer self) > 0
                        then Some (last (audio_data_buffer self)) else None);
          current_granule_position = granule_position frame;
          previous_granule_position =
            (case last_frame of Some f \<Rightarrow> granule_position f | None \<Rightarrow> 0)
      in case calculate_frame_duration current_granule_position
                (Some previous_granule_position) (sample_rate self) of
           Inl e \<Rightarrow> \<lparr>raised = Some e, self_after = self, dp_after = dp, dpm_after = dpm\<rparr>
         | Inr frame_duration \<Rightarrow>
             (let self1 = self\<lparr>audio_data_buffer := audio_data_buffer self @ [frame],
                               current_audio_buffer_seconds :=
                                 float_add (current_audio_buffer_seconds self) frame_duration\<rparr>
              in if 0 < frame_duration then
                   (case evict self1 of
                      (Some e, self2) \<Rightarrow>
                        \<lparr>raised = Some e, self_after = self2, dp_after = dp, dpm_after = dpm\<rparr>
                    | (None, self2) \<Rightarrow>
                        (let n_seconds_of_audio =
                               header_buffer self2 @ concat (map raw_data (audio_data_buffer self2))
                         in \<lparr>raised = None, self_after = self2,
                             dp_after = dp\<lparr>data := Some n_seconds_of_audio\<rparr>,
                             dpm_after = dpm\<rparr>))
                 else \<lparr>raised = None, self_after = self1, dp_after = dp, dpm_after = dpm\<rparr>))"

text \<open>\<open>CreateNsAudioPackage.execute\<close>, lines 42 to 89.\<close>

definition execute ::
  "extract_ogg \<Rightarrow> CreateNsAudioPackage \<Rightarrow> DataPackage \<Rightarrow> DataPackageModule \<Rightarrow> effect" where
  "execute lib self dp dpm =
     (case data dp of
        None \<Rightarrow> \<lparr>raised = None, self_after = self, dp_after = dp, dpm_after = dpm\<rparr>
      | Some d \<Rightarrow>
          if d = [] then \<lparr>raised = None, self_after = self, dp_after = dp, dpm_after = dpm\<rparr>
          else
            (case OggSFrame_init lib d of
               None \<Rightarrow>
                 \<lparr>raised = Some OggSFrameError, self_after = self, dp_after = dp, dpm_after = dpm\<rparr>
             | Some frame \<Rightarrow>
                 if \<not> truthy (header_frames self) then
                   (let self1 = self\<lparr>header_buffer := header_buffer self @ raw_data frame\<rparr>
                    in case get_header_frames lib (header_buffer self1) of
                         None \<Rightarrow>
                           \<lparr>raised = Some GetHeaderFramesError, self_after = self1,
                            dp_after = dp, dpm_after = dpm\<rparr>
                       | Some (Some id_header_frame, Some (c # cs)) \<Rightarrow>
                           append_frame
                             (self1\<lparr>header_frames := Some ([id_header_frame] @ (c # cs))\<rparr>)
                             frame dp dpm
                       | Some _ \<Rightarrow>
                           \<lparr>raised = None, self_after = self1, dp_after = dp,
                            dpm_after = dpm\<lparr>success := False,
                              message := ''Could not find the header frames''\<rparr>\<rparr>)
                 else append_frame self frame dp dpm))"


text \<open>
  The pipeline hands \<open>execute\<close> one data package per page, in arrival order (line 188:
  \<open>pipeline.execute(frame.raw_data, ...)\<close>); the instance lives on between the calls,
  also after a call that raised. \<open>feed\<close> gives the instance after a list of payloads.
\<close>

fun feed :: "extract_ogg \<Rightarrow> CreateNsAudioPackage \<Rightarrow> bytes list \<Rightarrow> CreateNsAudioPackage" where
  "feed lib self [] = self"
| "feed lib self (d # ds) =
     feed lib (self_after (execute lib self \<lparr>data = Some d\<rparr> \<lparr>success = True, message = []\<rparr>)) ds"


section \<open>A concrete page parser\<close>

text \<open>
  Modelled from the spec: the module \<open>extract_ogg\<close> (\<open>OggSFrame\<close>, \<open>get_header_frames\<close>)
  is not among the sources. The spec asks of the page parser that it parses raw bytes into a
  page exposing granule position and raw bytes, signals malformed input, and detects the
  identification page and the comment pages within an accumulated byte buffer, returning
  absence if incomplete. The parser below does so for a minimal page format: a page is nine
  bytes, a kind byte (1 identification, 2 comment, anything else audio) followed by the
  granule position as eight bytes, least significant first. It is the concrete library at
  which the general theorems are instantiated.
\<close>

definition le_int :: "bytes \<Rightarrow> int" where
  "le_int bs = foldr (\<lambda>b acc. uint b + 256 * acc) bs 0"

definition toy_frame :: "bytes \<Rightarrow> OggSFrame option" where
  "toy_frame d =
     (if length d = 9 then Some \<lparr>raw_data = d, granule_position = le_int (tl d)\<rparr> else None)"

fun toy_pages :: "bytes \<Rightarrow> OggSFrame list" where
  "toy_pages (k # b0 # b1 # b2 # b3 # b4 # b5 # b6 # b7 # rest) =
     \<lparr>raw_data = [k, b0, b1, b2, b3, b4, b5, b6, b7],
      granule_position = le_int [b0, b1, b2, b3, b4, b5, b6, b7]\<rparr> # toy_pages rest"
| "toy_pages _ = []"

definition toy_headers :: "bytes \<Rightarrow> (OggSFrame option \<times> OggSFrame list option) option" where
  "toy_headers buf =
     (let ps = toy_pages buf
      in Some (find (\<lambda>p. hd (raw_data p) = 1) ps, Some (filter (\<lambda>p. hd (raw_data p) = 2) ps)))"

definition toy :: extract_ogg where
  "toy = \<lparr>OggSFrame_init = toy_frame, get_header_frames = toy_headers\<rparr>"

text \<open>The nine bytes of the page of kind \<open>k\<close> with granule position \<open>gp\<close>.\<close>

definition toy_page :: "8 word \<Rightarrow> int \<Rightarrow> bytes" where
  "toy_page k gp = k # map (\<lambda>i. word_of_int (gp div 256 ^ i)) [0..<8]"


section \<open>Page sequences\<close>



section \<open>Facts about rounding\<close>

text \<open>
  The exponent brackets its argument, rounding keeps a positive number inside the binade
  it comes from (its upper end included), fixes the numbers it produces, commutes with
  negation and is monotone. These are the properties of float arithmetic the proofs about
  \<open>execute\<close> rest on.
\<close>

lemma expo_bounds:
  assumes "0 < x"
  shows "2 powi (expo x) \<le> x \<and> x < 2 powi (expo x + 1)"
proof (cases "1 \<le> x")
  case True
  define n where "n = \<lfloor>x\<rfloor>"
  define k where "k = bitlen n"
  have n: "0 < n" using True by (simp add: n_def)
  have b: "2 ^ nat (k - 1) \<le> n" "n < 2 ^ nat k"
    using bitlen_bounds[OF n] by (simp_all add: k_def)
  have k1: "1 \<le> k"
  proof (rule ccontr)
    assume "\<not> 1 \<le> k"
    then have "nat k = 0" by simp
    with b(2) n show False by simp
  qed
  have e: "expo x = k - 1" using True by (simp add: expo_def n_def k_def)
  have "2 powi (k - 1) = (of_int (2 ^ nat (k - 1)) :: real)"
    using k1 by (simp add: power_int_nonneg_exp)
  also have "\<dots> \<le> of_int n" using b(1) by (simp only: of_int_le_iff)
  also have "\<dots> \<le> x" by (simp add: n_def)
  finally have lo: "2 powi (k - 1) \<le> x" .
  have "n + 1 \<le> 2 ^ nat k" using b(2) by simp
  then have "(of_int (n + 1) :: real) \<le> of_int (2 ^ nat k)" by (simp only: of_int_le_iff)
  moreover have "x < of_int (n + 1)" by (simp add: n_def)
  moreover have "(of_int (2 ^ nat k) :: real) = 2 powi k"
    using k1 by (simp add: power_int_nonneg_exp)
  ultimately have hi: "x < 2 powi k" by linarith
  from lo hi e show ?thesis by simp
next
  case False
  define y where "y = 1 / x"
  define m where "m = \<lceil>y\<rceil> - 1"
  define k where "k = bitlen m"
  have y1: "1 < y" using False assms by (simp add: y_def)
  have m: "0 < m" using y1 by (simp add: m_def)
  have b: "2 ^ nat (k - 1) \<le> m" "m < 2 ^ nat k"
    using bitlen_bounds[OF m] by (simp_all add: k_def)
  have k1: "1 \<le> k"
  proof (rule ccontr)
    assume "\<not> 1 \<le> k"
    then have "nat k = 0" by simp
    with b(2) m show False by simp
  qed
  have e: "expo x = - k" using False by (simp add: expo_def y_def m_def k_def)
  have xy: "x = 1 / y" using assms by (simp add: y_def)
  have "m + 1 \<le> 2 ^ nat k" using b(2) by simp
  then have "(of_int (m + 1) :: real) \<le> of_int (2 ^ nat k)" by (simp only: of_int_le_iff)
  moreover have "y \<le> of_int (m + 1)" by (simp add: m_def)
  moreover have p: "(of_int (2 ^ nat k) :: real) = 2 powi k"
    using k1 by (simp add: power_int_nonneg_exp)
  ultimately have yk: "y \<le> 2 powi k" by linarith
  have "1 / (2 powi k) \<le> 1 / y"
    using yk y1 by (intro divide_left_mono) auto
  then have lo: "2 powi (- k) \<le> x" by (simp add: xy power_int_minus_divide)
  have "(of_int (2 ^ nat (k - 1)) :: real) \<le> of_int m" using b(1) by (simp only: of_int_le_iff)
  moreover have "of_int m < y" by (simp add: m_def) linarith
  moreover have "(of_int (2 ^ nat (k - 1)) :: real) = 2 powi (k - 1)"
    using k1 by (simp add: power_int_nonneg_exp)
  ultimately have ky: "2 powi (k - 1) < y" by linarith
  have "1 / y < 1 / (2 powi (k - 1))"
    using ky y1 by (intro divide_strict_left_mono mult_pos_pos) auto
  moreover have "(2::real) powi (- k + 1) = 1 / 2 powi (k - 1)"
    using power_int_minus_divide[of "2::real" "k - 1"] by simp
  ultimately have hi: "x < 2 powi (- k + 1)" by (simp add: xy)
  from lo hi e show ?thesis by simp
qed

lemma expo_unique:
  assumes "2 powi e \<le> x" and "x < 2 powi (e + 1)"
  shows "expo x = e"
proof -
  have "(0::real) < 2 powi e" by simp
  with assms(1) have x: "0 < x" by linarith
  note b = expo_bounds[OF x]
  have "\<not> e + 1 \<le> expo x"
  proof
    assume "e + 1 \<le> expo x"
    then have "(2::real) powi (e + 1) \<le> 2 powi expo x" by (intro power_int_increasing) auto
    with b assms(2) show False by linarith
  qed
  moreover have "\<not> expo x + 1 \<le> e"
  proof
    assume "expo x + 1 \<le> e"
    then have "(2::real) powi (expo x + 1) \<le> 2 powi e" by (intro power_int_increasing) auto
    with b assms(1) show False by linarith
  qed
  ultimately show ?thesis by linarith
qed

lemma round_half_even_of_int: "round_half_even (of_int n) = n"
  by (simp add: round_half_even_def)

lemma round_half_even_mono:
  assumes "x \<le> y"
  shows "round_half_even x \<le> round_half_even y"
proof (cases "\<lfloor>x\<rfloor> = \<lfloor>y\<rfloor>")
  case True
  then show ?thesis using assms by (auto simp add: round_half_even_def Let_def)
next
  case False
  with assms have "\<lfloor>x\<rfloor> < \<lfloor>y\<rfloor>" using floor_mono[OF assms] by linarith
  then have "\<lfloor>x\<rfloor> + 1 \<le> \<lfloor>y\<rfloor>" by simp
  moreover have "round_half_even x \<le> \<lfloor>x\<rfloor> + 1" by (simp add: round_half_even_def Let_def)
  moreover have "\<lfloor>y\<rfloor> \<le> round_half_even y" by (simp add: round_half_even_def Let_def)
  ultimately show ?thesis by linarith
qed


lemma round_double_pos_eq:
  assumes "0 < x"
  shows "round_double x = of_int (round_half_even (x / 2 powi (expo x - 52))) * 2 powi (expo x - 52)"
  using assms by (simp add: round_double_def Let_def)

lemma powi_52: "(2::real) powi e = 2 ^ 52 * 2 powi (e - 52)"
proof -
  have "e = (e - 52) + 52" by simp
  then have "(2::real) powi e = 2 powi ((e - 52) + 52)" by (rule arg_cong)
  also have "\<dots> = 2 powi (e - 52) * 2 powi 52" by (rule power_int_add) simp
  finally show ?thesis by (simp only: power_int_numeral mult.commute)
qed

lemma powi_53: "(2::real) powi (e + 1) = 2 ^ 53 * 2 powi (e - 52)"
proof -
  have "e + 1 = (e - 52) + 53" by simp
  then have "(2::real) powi (e + 1) = 2 powi ((e - 52) + 53)" by (rule arg_cong)
  also have "\<dots> = 2 powi (e - 52) * 2 powi 53" by (rule power_int_add) simp
  finally show ?thesis by (simp only: power_int_numeral mult.commute)
qed

lemma significand_range:
  assumes "0 < x"
  shows "2 ^ 52 \<le> round_half_even (x / 2 powi (expo x - 52))
       \<and> round_half_even (x / 2 powi (expo x - 52)) \<le> 2 ^ 53"
proof -
  define u where "u = (2::real) powi (expo x - 52)"
  have u: "0 < u" by (simp add: u_def)
  have "2 ^ 52 * u \<le> x" "x < 2 ^ 53 * u"
    using expo_bounds[OF assms] unfolding u_def powi_52[symmetric] powi_53[symmetric] by simp_all
  then have lo: "of_int (2 ^ 52) \<le> x / u" and hi: "x / u \<le> of_int (2 ^ 53)"
    using u by (simp_all add: pos_le_divide_eq pos_divide_le_eq)
  from round_half_even_mono[OF lo] round_half_even_mono[OF hi]
  show ?thesis by (simp only: round_half_even_of_int u_def)
qed

lemma round_double_bracket:
  assumes "0 < x"
  shows "2 powi expo x \<le> round_double x \<and> round_double x \<le> 2 powi (expo x + 1)"
proof -
  define u where "u = (2::real) powi (expo x - 52)"
  define r where "r = round_half_even (x / u)"
  have u: "0 < u" by (simp add: u_def)
  have r: "2 ^ 52 \<le> r" "r \<le> 2 ^ 53"
    using significand_range[OF assms] by (simp_all add: r_def u_def)
  then have "(of_int (2 ^ 52) :: real) \<le> of_int r" "(of_int r :: real) \<le> of_int (2 ^ 53)"
    by (simp_all only: of_int_le_iff)
  then have "2 ^ 52 * u \<le> of_int r * u" "of_int r * u \<le> 2 ^ 53 * u"
    using u by simp_all
  then have "2 powi expo x \<le> of_int r * u" "of_int r * u \<le> 2 powi (expo x + 1)"
    unfolding u_def powi_52[symmetric] powi_53[symmetric] by simp_all
  moreover have "round_double x = of_int r * u"
    using round_double_pos_eq[OF assms] by (simp add: r_def u_def)
  ultimately show ?thesis by simp
qed

lemma round_double_pos: "0 < x \<Longrightarrow> 0 < round_double x"
proof -
  assume x: "0 < x"
  have "(0::real) < 2 powi expo x" by simp
  with round_double_bracket[OF x] show ?thesis by linarith
qed

lemma round_double_zero: "round_double 0 = 0"
  by (simp add: round_double_def)

lemma round_double_minus: "round_double (- x) = - round_double x"
  by (simp add: round_double_def Let_def)

lemma round_double_neg: "x < 0 \<Longrightarrow> round_double x < 0"
  using round_double_pos[of "- x"] by (simp add: round_double_minus)

lemma round_double_exact:
  assumes "2 ^ 52 \<le> r" and "r < 2 ^ 53"
  shows "round_double (of_int r * 2 powi k) = of_int r * 2 powi k"
proof -
  define z where "z = (of_int r :: real) * 2 powi k"
  have k: "(0::real) < 2 powi k" by simp
  from assms have "(of_int (2 ^ 52) :: real) \<le> of_int r" "(of_int r :: real) < of_int (2 ^ 53)"
    by (simp_all only: of_int_le_iff of_int_less_iff)
  then have "2 ^ 52 * 2 powi (k + 52 - 52) \<le> z" "z < 2 ^ 53 * 2 powi (k + 52 - 52)"
    using k by (simp_all add: z_def)
  then have "2 powi (k + 52) \<le> z" "z < 2 powi (k + 52 + 1)"
    unfolding powi_52[symmetric] powi_53[symmetric] by simp_all
  then have e: "expo z = k + 52" by (rule expo_unique)
  have z: "0 < z" using assms(1) k by (simp add: z_def)
  have "round_double z = of_int (round_half_even (z / 2 powi k)) * 2 powi k"
    using round_double_pos_eq[OF z] by (simp add: e)
  also have "z / 2 powi k = of_int r" by (simp add: z_def)
  finally show ?thesis by (simp add: round_half_even_of_int z_def)
qed

lemma round_double_idem_pos:
  assumes "0 < x"
  shows "round_double (round_double x) = round_double x"
proof -
  define k where "k = expo x - 52"
  define r where "r = round_half_even (x / 2 powi k)"
  have r: "2 ^ 52 \<le> r" "r \<le> 2 ^ 53"
    using significand_range[OF assms] by (simp_all add: r_def k_def)
  have rd: "round_double x = of_int r * 2 powi k"
    using round_double_pos_eq[OF assms] by (simp add: r_def k_def)
  show ?thesis
  proof (cases "r < 2 ^ 53")
    case True
    with r(1) show ?thesis unfolding rd by (rule round_double_exact)
  next
    case False
    with r(2) have "r = 2 ^ 53" by simp
    then have "round_double x = of_int (2 ^ 52) * 2 powi (k + 1)"
      by (simp add: rd power_int_add)
    moreover have "round_double (of_int (2 ^ 52) * 2 powi (k + 1)) = of_int (2 ^ 52) * 2 powi (k + 1)"
      by (rule round_double_exact) simp_all
    ultimately show ?thesis by simp
  qed
qed

lemma round_double_idem: "round_double (round_double x) = round_double x"
proof -
  consider "0 < x" | "x = 0" | "x < 0" by linarith
  then show ?thesis
  proof cases
    case 1 then show ?thesis by (rule round_double_idem_pos)
  next
    case 2 then show ?thesis by (simp add: round_double_zero)
  next
    case 3
    then have "round_double (round_double (- x)) = round_double (- x)"
      by (intro round_double_idem_pos) simp
    then show ?thesis by (simp add: round_double_minus)
  qed
qed

lemma round_double_mono_pos:
  assumes "0 < x" and "x \<le> y"
  shows "round_double x \<le> round_double y"
proof -
  have y: "0 < y" using assms by linarith
  note bx = expo_bounds[OF assms(1)] and by' = expo_bounds[OF y]
  have le: "expo x \<le> expo y"
  proof (rule ccontr)
    assume "\<not> expo x \<le> expo y"
    then have "expo y + 1 \<le> expo x" by simp
    then have "(2::real) powi (expo y + 1) \<le> 2 powi expo x" by (intro power_int_increasing) auto
    with bx by' assms(2) show False by linarith
  qed
  show ?thesis
  proof (cases "expo x = expo y")
    case True
    define u where "u = (2::real) powi (expo x - 52)"
    have u: "0 < u" by (simp add: u_def)
    from assms(2) u have "x / u \<le> y / u" by (simp add: divide_right_mono)
    then have "round_half_even (x / u) \<le> round_half_even (y / u)" by (rule round_half_even_mono)
    then have "(of_int (round_half_even (x / u)) :: real) \<le> of_int (round_half_even (y / u))"
      by (simp only: of_int_le_iff)
    then have "of_int (round_half_even (x / u)) * u \<le> of_int (round_half_even (y / u)) * u"
      using u by simp
    then show ?thesis
      using round_double_pos_eq[OF assms(1)] round_double_pos_eq[OF y] True by (simp add: u_def)
  next
    case False
    with le have "expo x + 1 \<le> expo y" by simp
    then have "(2::real) powi (expo x + 1) \<le> 2 powi expo y" by (intro power_int_increasing) auto
    with round_double_bracket[OF assms(1)] round_double_bracket[OF y] show ?thesis by linarith
  qed
qed

lemma round_double_mono:
  assumes "x \<le> y"
  shows "round_double x \<le> round_double y"
proof -
  consider "0 < x" | "x \<le> 0" "0 \<le> y" | "y < 0" by linarith
  then show ?thesis
  proof cases
    case 1 with assms show ?thesis by (intro round_double_mono_pos)
  next
    case 2
    have "round_double x \<le> 0"
      using 2(1) round_double_neg[of x] by (cases "x = 0") (simp_all add: round_double_zero)
    moreover have "0 \<le> round_double y"
      using 2(2) round_double_pos[of y] by (cases "y = 0") (simp_all add: round_double_zero)
    ultimately show ?thesis by linarith
  next
    case 3
    with assms have "round_double (- y) \<le> round_double (- x)"
      by (intro round_double_mono_pos) simp_all
    then show ?thesis by (simp add: round_double_minus)
  qed
qed

lemma int_truediv_zero: "int_truediv 0 b = 0"
  by (simp add: int_truediv_def round_double_zero)

lemma int_truediv_pos: "0 < a \<Longrightarrow> 0 < b \<Longrightarrow> 0 < int_truediv a b"
  by (simp add: int_truediv_def round_double_pos)

lemma int_truediv_neg: "a < 0 \<Longrightarrow> 0 < b \<Longrightarrow> int_truediv a b < 0"
  by (simp add: int_truediv_def round_double_neg divide_neg_pos)

lemma int_truediv_nonneg: "0 \<le> a \<Longrightarrow> 0 < b \<Longrightarrow> 0 \<le> int_truediv a b"
  using int_truediv_pos[of a b] by (cases "a = 0") (simp_all add: int_truediv_zero)

lemma is_float_round: "is_float (round_double x)"
  by (simp add: is_float_def round_double_idem)

lemma is_float_zero: "is_float 0"
  by (simp add: is_float_def round_double_zero)

lemma float_add_zero: "is_float x \<Longrightarrow> float_add x 0 = x"
  by (simp add: float_add_def is_float_def)

lemma float_sub_zero: "is_float x \<Longrightarrow> float_sub x 0 = x"
  by (simp add: float_sub_def is_float_def)

lemma float_add_nonpos: "is_float x \<Longrightarrow> y \<le> 0 \<Longrightarrow> float_add x y \<le> x"
  using round_double_mono[of "x + y" x] by (simp add: float_add_def is_float_def)

lemma float_sub_nonneg: "is_float x \<Longrightarrow> 0 \<le> y \<Longrightarrow> float_sub x y \<le> x"
  using round_double_mono[of "x - y" x] by (simp add: float_sub_def is_float_def)

lemma float_add_mono: "x \<le> y \<Longrightarrow> float_add x d \<le> float_add y d"
  by (simp add: float_add_def round_double_mono)










section \<open>Facts about the operations\<close>

text \<open>The eviction and the append, spelled out for a non-zero sample rate, where no
  division raises and the pop always finds the frame just appended.\<close>

lemma evict_headers:
  "header_frames (snd (evict self)) = header_frames self"
  "header_buffer (snd (evict self)) = header_buffer self"
  "sample_rate (snd (evict self)) = sample_rate self"
  "last_n_seconds (snd (evict self)) = last_n_seconds self"
  by (simp_all add: evict_def Let_def split: list.splits sum.splits)

lemma evict_ok:
  assumes "sample_rate self \<noteq> 0" and "audio_data_buffer self \<noteq> []"
  shows "evict self =
     (if of_int (last_n_seconds self) \<le> current_audio_buffer_seconds self
      then (None, self\<lparr>audio_data_buffer := tl (audio_data_buffer self),
              current_audio_buffer_seconds :=
                float_sub (current_audio_buffer_seconds self)
                  (if tl (audio_data_buffer self) = [] then 0
                   else int_truediv (granule_position (hd (tl (audio_data_buffer self)))
                          - granule_position (hd (audio_data_buffer self))) (sample_rate self))\<rparr>)
      else (None, self))"
  using assms
  by (cases "audio_data_buffer self"; cases "tl (audio_data_buffer self)")
     (simp_all add: evict_def calculate_frame_duration_def Let_def int_truediv_zero hd_conv_nth)

lemma append_frame_ok:
  assumes "sample_rate self \<noteq> 0"
  shows "append_frame self frame dp dpm =
     (let delta = int_truediv (granule_position frame
                    - (if audio_data_buffer self = [] then 0
                       else granule_position (last (audio_data_buffer self)))) (sample_rate self);
          self1 = self\<lparr>audio_data_buffer := audio_data_buffer self @ [frame],
                        current_audio_buffer_seconds :=
                          float_add (current_audio_buffer_seconds self) delta\<rparr>
      in if 0 < delta
         then \<lparr>raised = None, self_after = snd (evict self1),
               dp_after = dp\<lparr>data := Some (header_buffer self
                  @ concat (map raw_data (audio_data_buffer (snd (evict self1)))))\<rparr>,
               dpm_after = dpm\<rparr>
         else \<lparr>raised = None, self_after = self1, dp_after = dp, dpm_after = dpm\<rparr>)"
  using assms
  by (simp add: append_frame_def calculate_frame_duration_def Let_def evict_ok split: prod.splits)

lemma self_after_append_frame:
  "self_after (append_frame self frame dp dpm) =
     (case calculate_frame_duration (granule_position frame)
             (Some (if audio_data_buffer self = [] then 0
                    else granule_position (last (audio_data_buffer self)))) (sample_rate self) of
        Inl e \<Rightarrow> self
      | Inr delta \<Rightarrow>
          if 0 < delta
          then snd (evict (self\<lparr>audio_data_buffer := audio_data_buffer self @ [frame],
                 current_audio_buffer_seconds :=
                   float_add (current_audio_buffer_seconds self) delta\<rparr>))
          else self\<lparr>audio_data_buffer := audio_data_buffer self @ [frame],
                 current_audio_buffer_seconds :=
                   float_add (current_audio_buffer_seconds self) delta\<rparr>)"
  by (simp add: append_frame_def Let_def split: sum.splits prod.splits option.splits)

lemma append_frame_headers:
  "header_frames (self_after (append_frame self frame dp dpm)) = header_frames self"
  "header_buffer (self_after (append_frame self frame dp dpm)) = header_buffer self"
  "sample_rate (self_after (append_frame self frame dp dpm)) = sample_rate self"
  "last_n_seconds (self_after (append_frame self frame dp dpm)) = last_n_seconds self"
  by (simp_all add: self_after_append_frame evict_headers split: sum.splits)

lemma append_frame_dp:
  assumes "dp_after (append_frame self frame dp dpm) \<noteq> dp"
  shows "raised (append_frame self frame dp dpm) = None
       \<and> data (dp_after (append_frame self frame dp dpm)) =
           Some (header_buffer (self_after (append_frame self frame dp dpm))
             @ concat (map raw_data (audio_data_buffer (self_after (append_frame self frame dp dpm)))))"
  using assms
  by (auto simp add: append_frame_def Let_def split: sum.splits prod.splits option.splits if_splits)

lemma execute_dp:
  assumes "dp_after (execute lib self dp dpm) \<noteq> dp"
  shows "raised (execute lib self dp dpm) = None
       \<and> data (dp_after (execute lib self dp dpm)) =
           Some (header_buffer (self_after (execute lib self dp dpm))
             @ concat (map raw_data (audio_data_buffer (self_after (execute lib self dp dpm)))))"
  using assms
  by (auto simp add: execute_def Let_def append_frame_dp
      split: option.splits if_splits prod.splits list.splits)

lemma execute_streaming_step:
  assumes "data dp = Some d" and "d \<noteq> []" and "OggSFrame_init lib d = Some frame"
    and "truthy (header_frames self)" and "sample_rate self \<noteq> 0"
  shows "let delta = int_truediv (granule_position frame
                      - (if audio_data_buffer self = [] then 0
                         else granule_position (last (audio_data_buffer self)))) (sample_rate self);
             grown = audio_data_buffer self @ [frame];
             total = float_add (current_audio_buffer_seconds self) delta;
             after = self_after (execute lib self dp dpm)
         in raised (execute lib self dp dpm) = None
          \<and> audio_data_buffer after =
              (if 0 < delta \<and> of_int (last_n_seconds self) \<le> total then tl grown else grown)
          \<and> current_audio_buffer_seconds after =
              (if 0 < delta \<and> of_int (last_n_seconds self) \<le> total
               then float_sub total
                      (if tl grown = [] then 0
                       else int_truediv (granule_position (hd (tl grown))
                              - granule_position (hd grown)) (sample_rate self))
               else total)"
  using assms
  by (simp add: execute_def append_frame_ok evict_ok Let_def)

lemma execute_streaming_headers:
  assumes "truthy (header_frames self)"
  shows "header_frames (self_after (execute lib self dp dpm)) = header_frames self"
    and "header_buffer (self_after (execute lib self dp dpm)) = header_buffer self"
  using assms by (simp_all add: execute_def append_frame_headers split: option.splits)

lemma feed_streaming_headers:
  "truthy (header_frames self) \<Longrightarrow>
     header_frames (feed lib self ds) = header_frames self
   \<and> header_buffer (feed lib self ds) = header_buffer self"
proof (induction ds arbitrary: self)
  case Nil
  then show ?case by simp
next
  case (Cons d ds)
  let ?next = "self_after (execute lib self \<lparr>data = Some d\<rparr> \<lparr>success = True, message = []\<rparr>)"
  have "header_frames ?next = header_frames self" "header_buffer ?next = header_buffer self"
    using Cons.prems by (rule execute_streaming_headers)+
  with Cons.IH[of ?next] Cons.prems show ?case by simp
qed

lemma execute_capture_headers:
  assumes "\<not> truthy (header_frames self)" and "data dp = Some d" and "d \<noteq> []"
    and "OggSFrame_init lib d = Some frame"
    and "get_header_frames lib (header_buffer self @ raw_data frame) = Some (Some idf, Some (c # cs))"
  shows "execute lib self dp dpm =
     append_frame (self\<lparr>header_buffer := header_buffer self @ raw_data frame,
                        header_frames := Some (idf # c # cs)\<rparr>) frame dp dpm"
  using assms by (simp add: execute_def)

lemma execute_waiting_invariant:
  assumes "sample_rate self = 48000 \<and> last_n_seconds self = 10
     \<and> (\<not> truthy (header_frames self) \<longrightarrow>
          audio_data_buffer self = [] \<and> current_audio_buffer_seconds self = 0)"
  shows "sample_rate (self_after (execute lib self dp dpm)) = 48000
     \<and> last_n_seconds (self_after (execute lib self dp dpm)) = 10
     \<and> (\<not> truthy (header_frames (self_after (execute lib self dp dpm))) \<longrightarrow>
          audio_data_buffer (self_after (execute lib self dp dpm)) = []
        \<and> current_audio_buffer_seconds (self_after (execute lib self dp dpm)) = 0)"
  using assms
  by (auto simp add: execute_def append_frame_headers truthy_def Let_def
      split: option.splits list.splits prod.splits)

lemma feed_waiting_invariant:
  assumes "sample_rate self = 48000 \<and> last_n_seconds self = 10
     \<and> (\<not> truthy (header_frames self) \<longrightarrow>
          audio_data_buffer self = [] \<and> current_audio_buffer_seconds self = 0)"
  shows "sample_rate (feed lib self ds) = 48000
     \<and> last_n_seconds (feed lib self ds) = 10
     \<and> (\<not> truthy (header_frames (feed lib self ds)) \<longrightarrow>
          audio_data_buffer (feed lib self ds) = []
        \<and> current_audio_buffer_seconds (feed lib self ds) = 0)"
  using assms
proof (induction ds arbitrary: self)
  case Nil
  then show ?case by simp
next
  case (Cons d ds)
  from execute_waiting_invariant[OF Cons.prems] Cons.IH show ?case by simp
qed

lemma feed_snoc:
  "feed lib self (ds @ [d]) =
     self_after (execute lib (feed lib self ds) \<lparr>data = Some d\<rparr> \<lparr>success = True, message = []\<rparr>)"
  by (induction ds arbitrary: self) simp_all







text \<open>Unfolding sets for evaluating the model at concrete inputs.\<close>

lemmas toy_eval = toy_def toy_frame_def toy_headers_def toy_page_def le_int_def upt_rec
lemmas exec_eval = execute_def append_frame_def evict_def calculate_frame_duration_def
  int_truediv_def float_add_def float_sub_def truthy_def init_def
lemmas fl_eval = round_double_def expo_def round_half_even_def compute_bitlen Let_def
  power_int_minus_divide is_float_def


section \<open>Empty payloads\<close>

text \<open>
  C10. A call whose payload is empty (\<open>dp.data\<close> is \<open>None\<close> or \<open>b''\<close>) does nothing:
  the parser is not consulted, nothing is raised, the data package and the module record
  are as before, and no attribute of the instance changes: window, cumulative duration,
  header accumulator and header frames. The equations hold for every library \<open>lib\<close>, also
  one whose constructor raises on every input.
\<close>

theorem execute_empty_payload_noop:
  "execute lib self (dp\<lparr>data := None\<rparr>) dpm =
     \<lparr>raised = None, self_after = self, dp_after = dp\<lparr>data := None\<rparr>, dpm_after = dpm\<rparr>
   \<and> execute lib self (dp\<lparr>data := Some []\<rparr>) dpm =
     \<lparr>raised = None, self_after = self, dp_after = dp\<lparr>data := Some []\<rparr>, dpm_after = dpm\<rparr>"
  by (simp add: execute_def)


section \<open>Malformed pages\<close>

text \<open>
  C7, as stated, fails for the empty payload: the concrete parser rejects \<open>b''\<close>, but
  \<open>execute\<close> never shows it to the parser and returns without raising.
\<close>

theorem malformed_empty_page_counterexample:
  "OggSFrame_init toy [] = None
   \<and> execute toy init \<lparr>data = Some []\<rparr> \<lparr>success = True, message = []\<rparr> =
       \<lparr>raised = None, self_after = init, dp_after = \<lparr>data = Some []\<rparr>,
        dpm_after = \<lparr>success = True, message = []\<rparr>\<rparr>"
  by (simp add: execute_def toy_def toy_frame_def)

text \<open>
  C7, amended. For every state and every non-empty payload that the \<open>OggSFrame\<close>
  constructor rejects, \<open>execute\<close> raises the constructor's error to the caller and leaves
  the instance (window, cumulative duration, header frames, and the accumulator too), the
  data package and the module record exactly as they were.
\<close>

theorem malformed_page_raises:
  assumes "data dp = Some d" and "d \<noteq> []" and "OggSFrame_init lib d = None"
  shows "execute lib self dp dpm =
     \<lparr>raised = Some OggSFrameError, self_after = self, dp_after = dp, dpm_after = dpm\<rparr>"
  using assms by (simp add: execute_def)

theorem malformed_page_raises_witness:
  "execute toy init \<lparr>data = Some [0]\<rparr> \<lparr>success = True, message = []\<rparr> =
     \<lparr>raised = Some OggSFrameError, self_after = init, dp_after = \<lparr>data = Some [0]\<rparr>,
      dpm_after = \<lparr>success = True, message = []\<rparr>\<rparr>"
  by (rule malformed_page_raises[where d = "[0]"]) (simp_all add: toy_def toy_frame_def)


section \<open>The first page into an empty window\<close>

text \<open>
  C1 says that the first page accepted into an empty window has duration \<open>0.0\<close> and
  produces no package, whatever its granule position. \<open>calculate_frame_duration\<close> has
  that default (\<open>previous_granule_position is None\<close>, "Default value for the first frame"),
  and \<open>simulate_live_audio_stream\<close> starts from \<open>None\<close>; \<open>execute\<close> passes \<open>0\<close>
  for an empty buffer instead, so the duration is the granule position divided by the
  sample rate. Here the identification page has arrived, and the page that completes the
  headers carries granule position 48000: the duration added is \<open>1.0\<close> and a package
  is produced.
\<close>

theorem first_page_duration_from_zero:
  "execute toy (feed toy init [toy_page 1 0]) \<lparr>data = Some (toy_page 2 48000)\<rparr>
      \<lparr>success = True, message = []\<rparr> =
   \<lparr>raised = None,
    self_after = \<lparr>audio_data_buffer = [\<lparr>raw_data = toy_page 2 48000, granule_position = 48000\<rparr>],
      sample_rate = 48000, last_n_seconds = 10, current_audio_buffer_seconds = 1,
      header_buffer = toy_page 1 0 @ toy_page 2 48000,
      header_frames = Some [\<lparr>raw_data = toy_page 1 0, granule_position = 0\<rparr>,
                            \<lparr>raw_data = toy_page 2 48000, granule_position = 48000\<rparr>]\<rparr>,
    dp_after = \<lparr>data = Some (toy_page 1 0 @ toy_page 2 48000 @ toy_page 2 48000)\<rparr>,
    dpm_after = \<lparr>success = True, message = []\<rparr>\<rparr>"
  by (simp add: exec_eval toy_eval fl_eval)


section \<open>The emitted package\<close>

text \<open>
  C2, as stated, fails: the package starts with the byte accumulator \<open>header_buffer\<close>, not
  with the bytes of the header frames. When an audio page arrives before the identification
  page, the accumulator holds it too, and so does every package.
\<close>

theorem blob_not_header_frames_counterexample:
  "header_frames (self_after (execute toy (feed toy init [toy_page 0 0, toy_page 1 0, toy_page 2 0])
       \<lparr>data = Some (toy_page 0 48000)\<rparr> \<lparr>success = True, message = []\<rparr>))
     = Some [\<lparr>raw_data = toy_page 1 0, granule_position = 0\<rparr>,
             \<lparr>raw_data = toy_page 2 0, granule_position = 0\<rparr>]
   \<and> audio_data_buffer (self_after (execute toy (feed toy init [toy_page 0 0, toy_page 1 0, toy_page 2 0])
       \<lparr>data = Some (toy_page 0 48000)\<rparr> \<lparr>success = True, message = []\<rparr>))
     = [\<lparr>raw_data = toy_page 2 0, granule_position = 0\<rparr>,
        \<lparr>raw_data = toy_page 0 48000, granule_position = 48000\<rparr>]
   \<and> data (dp_after (execute toy (feed toy init [toy_page 0 0, toy_page 1 0, toy_page 2 0])
       \<lparr>data = Some (toy_page 0 48000)\<rparr> \<lparr>success = True, message = []\<rparr>))
     = Some (toy_page 0 0 @ toy_page 1 0 @ toy_page 2 0 @ toy_page 2 0 @ toy_page 0 48000)
   \<and> data (dp_after (execute toy (feed toy init [toy_page 0 0, toy_page 1 0, toy_page 2 0])
       \<lparr>data = Some (toy_page 0 48000)\<rparr> \<lparr>success = True, message = []\<rparr>))
     \<noteq> Some ((toy_page 1 0 @ toy_page 2 0) @ (toy_page 2 0 @ toy_page 0 48000))"
  by (simp add: exec_eval toy_eval fl_eval)

text \<open>
  C2, amended. For every call that replaces the data of the package, nothing was raised and
  the new data are exactly the bytes of the accumulator \<open>header_buffer\<close> followed by the
  raw bytes of every frame in the window after the call, in order.
\<close>

theorem emitted_blob_is_accumulator_and_window:
  assumes "dp_after (execute lib self dp dpm) \<noteq> dp"
  shows "raised (execute lib self dp dpm) = None
       \<and> data (dp_after (execute lib self dp dpm)) =
           Some (header_buffer (self_after (execute lib self dp dpm))
             @ concat (map raw_data (audio_data_buffer (self_after (execute lib self dp dpm)))))"
  using assms by (rule execute_dp)

theorem emitted_blob_is_accumulator_and_window_witness:
  "dp_after (execute toy (feed toy init [toy_page 1 0, toy_page 2 0])
       \<lparr>data = Some (toy_page 0 48000)\<rparr> \<lparr>success = True, message = []\<rparr>)
     \<noteq> \<lparr>data = Some (toy_page 0 48000)\<rparr>
   \<and> data (dp_after (execute toy (feed toy init [toy_page 1 0, toy_page 2 0])
       \<lparr>data = Some (toy_page 0 48000)\<rparr> \<lparr>success = True, message = []\<rparr>))
     = Some (header_buffer (self_after (execute toy (feed toy init [toy_page 1 0, toy_page 2 0])
               \<lparr>data = Some (toy_page 0 48000)\<rparr> \<lparr>success = True, message = []\<rparr>))
        @ concat (map raw_data (audio_data_buffer (self_after (execute toy
            (feed toy init [toy_page 1 0, toy_page 2 0])
               \<lparr>data = Some (toy_page 0 48000)\<rparr> \<lparr>success = True, message = []\<rparr>)))))"
proof -
  have h: "dp_after (execute toy (feed toy init [toy_page 1 0, toy_page 2 0])
       \<lparr>data = Some (toy_page 0 48000)\<rparr> \<lparr>success = True, message = []\<rparr>)
     \<noteq> \<lparr>data = Some (toy_page 0 48000)\<rparr>"
    by (simp add: exec_eval toy_eval fl_eval)
  from h emitted_blob_is_accumulator_and_window[OF h] show ?thesis by simp
qed


section \<open>The bound on the cumulative duration\<close>





section \<open>The eviction\<close>

text \<open>
  C4, as stated, fails: the eviction sits under \<open>if frame_duration > 0.0\<close>. The window
  holds the pages of 1, 2 and 12 seconds with a cumulative duration of 11 seconds; a second
  page of 12 seconds adds nothing, the duration after the append is 11, at least the target
  of 10, and no page is evicted.
\<close>

theorem no_eviction_without_progress_counterexample:
  "truthy (header_frames (feed toy init
      [toy_page 1 0, toy_page 2 0, toy_page 0 48000, toy_page 0 96000, toy_page 0 576000]))
   \<and> of_int (last_n_seconds (feed toy init
      [toy_page 1 0, toy_page 2 0, toy_page 0 48000, toy_page 0 96000, toy_page 0 576000]))
      \<le> float_add (current_audio_buffer_seconds (feed toy init
      [toy_page 1 0, toy_page 2 0, toy_page 0 48000, toy_page 0 96000, toy_page 0 576000]))
        (int_truediv (576000 - 576000) 48000)
   \<and> audio_data_buffer (self_after (execute toy (feed toy init
      [toy_page 1 0, toy_page 2 0, toy_page 0 48000, toy_page 0 96000, toy_page 0 576000])
      \<lparr>data = Some (toy_page 0 576000)\<rparr> \<lparr>success = True, message = []\<rparr>))
     = audio_data_buffer (feed toy init
      [toy_page 1 0, toy_page 2 0, toy_page 0 48000, toy_page 0 96000, toy_page 0 576000])
       @ [\<lparr>raw_data = toy_page 0 576000, granule_position = 576000\<rparr>]"
  by (simp add: exec_eval toy_eval fl_eval)

text \<open>
  C4, amended. On every call in the streaming state (header frames present, page parsed),
  with \<open>delta\<close> the duration of the new page and \<open>total\<close> the cumulative duration after
  adding it: when \<open>delta > 0\<close> and \<open>total\<close> is at least the target, exactly the head of
  the window is evicted, and the duration subtracted is the granule position of the new head
  minus that of the evicted page, divided by the sample rate, or zero when the window
  becomes empty; otherwise, in particular whenever \<open>delta \<le> 0\<close>, nothing is evicted and
  nothing is subtracted.
\<close>

theorem eviction_step:
  assumes "data dp = Some d" and "d \<noteq> []" and "OggSFrame_init lib d = Some frame"
    and "truthy (header_frames self)" and "sample_rate self \<noteq> 0"
  shows "let delta = int_truediv (granule_position frame
                      - (if audio_data_buffer self = [] then 0
                         else granule_position (last (audio_data_buffer self)))) (sample_rate self);
             grown = audio_data_buffer self @ [frame];
             total = float_add (current_audio_buffer_seconds self) delta;
             after = self_after (execute lib self dp dpm)
         in raised (execute lib self dp dpm) = None
          \<and> audio_data_buffer after =
              (if 0 < delta \<and> of_int (last_n_seconds self) \<le> total then tl grown else grown)
          \<and> current_audio_buffer_seconds after =
              (if 0 < delta \<and> of_int (last_n_seconds self) \<le> total
               then float_sub total
                      (if tl grown = [] then 0
                       else int_truediv (granule_position (hd (tl grown))
                              - granule_position (hd grown)) (sample_rate self))
               else total)"
  using assms by (rule execute_streaming_step)

theorem eviction_step_witness:
  "audio_data_buffer (self_after (execute toy
      (feed toy init [toy_page 1 0, toy_page 2 0, toy_page 0 48000, toy_page 0 96000])
      \<lparr>data = Some (toy_page 0 576000)\<rparr> \<lparr>success = True, message = []\<rparr>))
     = [\<lparr>raw_data = toy_page 0 48000, granule_position = 48000\<rparr>,
        \<lparr>raw_data = toy_page 0 96000, granule_position = 96000\<rparr>,
        \<lparr>raw_data = toy_page 0 576000, granule_position = 576000\<rparr>]
   \<and> current_audio_buffer_seconds (self_after (execute toy
      (feed toy init [toy_page 1 0, toy_page 2 0, toy_page 0 48000, toy_page 0 96000])
      \<lparr>data = Some (toy_page 0 576000)\<rparr> \<lparr>success = True, message = []\<rparr>))
     = float_sub (float_add 2 (int_truediv (576000 - 96000) 48000)) (int_truediv (48000 - 0) 48000)"
  using eviction_step[of "\<lparr>data = Some (toy_page 0 576000)\<rparr>"
      "toy_page 0 576000" toy "\<lparr>raw_data = toy_page 0 576000, granule_position = 576000\<rparr>"
      "feed toy init [toy_page 1 0, toy_page 2 0, toy_page 0 48000, toy_page 0 96000]"
      "\<lparr>success = True, message = []\<rparr>"]
  by (simp add: exec_eval toy_eval fl_eval)


section \<open>Header pages and the window\<close>

text \<open>
  C5, as stated, fails: the call that completes the headers goes on to append its own page.
  After the identification page and the comment page the window holds the comment page,
  which is one of the header frames.
\<close>

theorem header_page_in_window_counterexample:
  "header_frames (feed toy init [toy_page 1 0, toy_page 2 0])
     = Some [\<lparr>raw_data = toy_page 1 0, granule_position = 0\<rparr>,
             \<lparr>raw_data = toy_page 2 0, granule_position = 0\<rparr>]
   \<and> audio_data_buffer (feed toy init [toy_page 1 0, toy_page 2 0])
     = [\<lparr>raw_data = toy_page 2 0, granule_position = 0\<rparr>]"
  by (simp add: exec_eval toy_eval fl_eval)

text \<open>
  C5, amended. As long as the headers are missing the window is empty: no page of a call
  that ends without the headers is ever appended. The page of the call on which the headers
  are first recognised is appended to the window like any later page, header page or not,
  and stays there unless its own duration reaches the target of 10 seconds.
\<close>

theorem capture_call_appends_its_page:
  assumes "\<not> truthy (header_frames (feed lib init ds))" and "d \<noteq> []"
    and "OggSFrame_init lib d = Some frame"
    and "get_header_frames lib (header_buffer (feed lib init ds) @ raw_data frame)
           = Some (Some idf, Some (c # cs))"
  shows "audio_data_buffer (feed lib init ds) = []
       \<and> header_frames (feed lib init (ds @ [d])) = Some (idf # c # cs)
       \<and> audio_data_buffer (feed lib init (ds @ [d])) =
           (if 10 \<le> int_truediv (granule_position frame) 48000 then [] else [frame])"
proof -
  let ?s = "feed lib init ds"
  have "sample_rate init = 48000 \<and> last_n_seconds init = 10
     \<and> (\<not> truthy (header_frames init) \<longrightarrow>
          audio_data_buffer init = [] \<and> current_audio_buffer_seconds init = 0)"
    by (simp add: init_def)
  from feed_waiting_invariant[OF this, of lib ds] assms(1)
  have s: "sample_rate ?s = 48000" "last_n_seconds ?s = 10" "audio_data_buffer ?s = []"
      "current_audio_buffer_seconds ?s = 0"
    by simp_all
  let ?delta = "int_truediv (granule_position frame) 48000"
  have fl: "float_add 0 ?delta = ?delta"
    by (simp add: float_add_def int_truediv_def round_double_idem)
  have "feed lib init (ds @ [d]) =
      self_after (append_frame (?s\<lparr>header_buffer := header_buffer ?s @ raw_data frame,
                        header_frames := Some (idf # c # cs)\<rparr>) frame
                   \<lparr>data = Some d\<rparr> \<lparr>success = True, message = []\<rparr>)"
    using assms by (simp add: feed_snoc execute_capture_headers)
  then show ?thesis
    using s fl by (simp add: append_frame_ok evict_ok Let_def)
qed


theorem capture_call_appends_its_page_witness:
  "audio_data_buffer (feed toy init [toy_page 1 0]) = []
   \<and> header_frames (feed toy init ([toy_page 1 0] @ [toy_page 2 0]))
       = Some [\<lparr>raw_data = toy_page 1 0, granule_position = 0\<rparr>,
               \<lparr>raw_data = toy_page 2 0, granule_position = 0\<rparr>]
   \<and> audio_data_buffer (feed toy init ([toy_page 1 0] @ [toy_page 2 0]))
       = (if 10 \<le> int_truediv (granule_position \<lparr>raw_data = toy_page 2 0, granule_position = 0\<rparr>) 48000
          then [] else [\<lparr>raw_data = toy_page 2 0, granule_position = 0\<rparr>])"
  by (rule capture_call_appends_its_page[where d = "toy_page 2 0" and cs = "[]"])
     (simp_all add: exec_eval toy_eval fl_eval)


section \<open>The header accumulator\<close>

text \<open>
  C6, as stated, fails: \<open>header_buffer\<close> is never cleared and every package starts with
  it. After the call that completes the headers the accumulator holds both header pages,
  the next package begins with them, and with the accumulator emptied by hand the same call
  would produce another package.
\<close>

theorem accumulator_not_discarded_counterexample:
  "header_buffer (feed toy init [toy_page 1 0, toy_page 2 0]) = toy_page 1 0 @ toy_page 2 0
   \<and> data (dp_after (execute toy (feed toy init [toy_page 1 0, toy_page 2 0])
       \<lparr>data = Some (toy_page 0 48000)\<rparr> \<lparr>success = True, message = []\<rparr>))
     = Some ((toy_page 1 0 @ toy_page 2 0) @ toy_page 2 0 @ toy_page 0 48000)
   \<and> dp_after (execute toy ((feed toy init [toy_page 1 0, toy_page 2 0])\<lparr>header_buffer := []\<rparr>)
       \<lparr>data = Some (toy_page 0 48000)\<rparr> \<lparr>success = True, message = []\<rparr>)
     \<noteq> dp_after (execute toy (feed toy init [toy_page 1 0, toy_page 2 0])
       \<lparr>data = Some (toy_page 0 48000)\<rparr> \<lparr>success = True, message = []\<rparr>)"
  by (simp add: exec_eval toy_eval fl_eval)

text \<open>
  C6, amended. On the call where the identification page and the comment pages are first
  found, the header frames are set to them and the accumulator keeps every byte gathered so
  far, the bytes of this call's page included. Through every later call both stay as they
  are, and every package produced later starts with the accumulator.
\<close>

theorem header_accumulator_is_kept:
  assumes "\<not> truthy (header_frames self)" and "d \<noteq> []"
    and "OggSFrame_init lib d = Some frame"
    and "get_header_frames lib (header_buffer self @ raw_data frame) = Some (Some idf, Some (c # cs))"
  shows "header_frames (feed lib self (d # ds)) = Some (idf # c # cs)
       \<and> header_buffer (feed lib self (d # ds)) = header_buffer self @ raw_data frame
       \<and> (dp_after (execute lib (feed lib self (d # ds)) dp dpm) = dp
          \<or> data (dp_after (execute lib (feed lib self (d # ds)) dp dpm)) =
              Some ((header_buffer self @ raw_data frame)
                @ concat (map raw_data (audio_data_buffer
                    (self_after (execute lib (feed lib self (d # ds)) dp dpm))))))"
proof -
  let ?first = "self_after (execute lib self \<lparr>data = Some d\<rparr> \<lparr>success = True, message = []\<rparr>)"
  have first: "header_frames ?first = Some (idf # c # cs)"
      "header_buffer ?first = header_buffer self @ raw_data frame"
    using assms by (simp_all add: execute_capture_headers append_frame_headers)
  then have "truthy (header_frames ?first)" by (simp add: truthy_def)
  from feed_streaming_headers[OF this, of lib ds] first
  have later: "header_frames (feed lib self (d # ds)) = Some (idf # c # cs)"
      "header_buffer (feed lib self (d # ds)) = header_buffer self @ raw_data frame"
    by simp_all
  then have "truthy (header_frames (feed lib self (d # ds)))" by (simp add: truthy_def)
  then have "header_buffer (self_after (execute lib (feed lib self (d # ds)) dp dpm))
      = header_buffer self @ raw_data frame"
    using later(2) by (simp add: execute_streaming_headers)
  with execute_dp[of lib "feed lib self (d # ds)" dp dpm] later
  show ?thesis by auto
qed


theorem header_accumulator_is_kept_witness:
  "header_frames (feed toy (feed toy init [toy_page 1 0]) (toy_page 2 0 # [toy_page 0 48000]))
     = Some [\<lparr>raw_data = toy_page 1 0, granule_position = 0\<rparr>,
             \<lparr>raw_data = toy_page 2 0, granule_position = 0\<rparr>]
   \<and> header_buffer (feed toy (feed toy init [toy_page 1 0]) (toy_page 2 0 # [toy_page 0 48000]))
     = header_buffer (feed toy init [toy_page 1 0])
         @ raw_data \<lparr>raw_data = toy_page 2 0, granule_position = 0\<rparr>"
  using header_accumulator_is_kept[of "feed toy init [toy_page 1 0]" "toy_page 2 0" toy
      "\<lparr>raw_data = toy_page 2 0, granule_position = 0\<rparr>"
      "\<lparr>raw_data = toy_page 1 0, granule_position = 0\<rparr>"
      "\<lparr>raw_data = toy_page 2 0, granule_position = 0\<rparr>" "[]" "[toy_page 0 48000]"
      "\<lparr>data = Some (toy_page 0 96000)\<rparr>" "\<lparr>success = True, message = []\<rparr>"]
  by (simp add: exec_eval toy_eval fl_eval)


section \<open>Pages that do not advance the granule position\<close>

text \<open>
  C8. In a streaming state with a non-empty window (a float as cumulative duration, a
  non-zero sample rate), a page whose granule position equals that of the window's tail is
  appended, leaves the cumulative duration as it is and produces no package: the data
  package and the module record come back unchanged and nothing is raised.
\<close>

theorem same_granule_position_no_update:
  assumes "data dp = Some d" and "d \<noteq> []" and "OggSFrame_init lib d = Some frame"
    and "truthy (header_frames self)" and "audio_data_buffer self \<noteq> []"
    and "granule_position frame = granule_position (last (audio_data_buffer self))"
    and "sample_rate self \<noteq> 0" and "is_float (current_audio_buffer_seconds self)"
  shows "execute lib self dp dpm =
     \<lparr>raised = None,
      self_after = self\<lparr>audio_data_buffer := audio_data_buffer self @ [frame]\<rparr>,
      dp_after = dp, dpm_after = dpm\<rparr>"
  using assms
  by (simp add: execute_def append_frame_def calculate_frame_duration_def
      int_truediv_zero float_add_zero)

theorem same_granule_position_no_update_witness:
  "execute toy (feed toy init [toy_page 1 0, toy_page 2 0, toy_page 0 48000])
      \<lparr>data = Some (toy_page 0 48000)\<rparr> \<lparr>success = True, message = []\<rparr> =
   \<lparr>raised = None,
    self_after = (feed toy init [toy_page 1 0, toy_page 2 0, toy_page 0 48000])
      \<lparr>audio_data_buffer :=
         audio_data_buffer (feed toy init [toy_page 1 0, toy_page 2 0, toy_page 0 48000])
           @ [\<lparr>raw_data = toy_page 0 48000, granule_position = 48000\<rparr>]\<rparr>,
    dp_after = \<lparr>data = Some (toy_page 0 48000)\<rparr>,
    dpm_after = \<lparr>success = True, message = []\<rparr>\<rparr>"
  by (rule same_granule_position_no_update[where d = "toy_page 0 48000"])
     (simp_all add: exec_eval toy_eval fl_eval)

text \<open>
  C9, as stated, fails in its "strictly decreases": the negative duration is added in
  float arithmetic and can be absorbed. The window holds the pages of 48000 and
  \<open>48000 \<sqdot> 2\<^sup>4\<^sup>0\<close> samples with a cumulative duration of \<open>2\<^sup>4\<^sup>0 - 1\<close> seconds; the
  next page lies one sample back, its duration \<open>-1/48000\<close> is less than half the spacing
  \<open>2\<^sup>-\<^sup>1\<^sup>3\<close> of the floats there, and the cumulative duration stays what it was.
\<close>

theorem decreasing_page_absorbed_counterexample:
  "truthy (header_frames (feed toy init
      [toy_page 1 0, toy_page 2 0, toy_page 0 48000, toy_page 0 52776558133248000]))
   \<and> granule_position (last (audio_data_buffer (feed toy init
      [toy_page 1 0, toy_page 2 0, toy_page 0 48000, toy_page 0 52776558133248000])))
      = 52776558133248000
   \<and> OggSFrame_init toy (toy_page 0 52776558133247999)
      = Some \<lparr>raw_data = toy_page 0 52776558133247999, granule_position = 52776558133247999\<rparr>
   \<and> current_audio_buffer_seconds (feed toy init
      [toy_page 1 0, toy_page 2 0, toy_page 0 48000, toy_page 0 52776558133248000])
      = 1099511627775
   \<and> current_audio_buffer_seconds (self_after (execute toy (feed toy init
      [toy_page 1 0, toy_page 2 0, toy_page 0 48000, toy_page 0 52776558133248000])
      \<lparr>data = Some (toy_page 0 52776558133247999)\<rparr> \<lparr>success = True, message = []\<rparr>))
      = 1099511627775"
  by (simp add: exec_eval toy_eval fl_eval)

text \<open>
  C9, amended. In a streaming state with a non-empty window (a float as cumulative
  duration, a positive sample rate), a page whose granule position is below that of the
  window's tail raises nothing: the page is appended, a negative duration is added in float
  arithmetic, so that the cumulative duration does not increase (it decreases unless the
  addition rounds back to the old value), no page is evicted and no package is produced.
\<close>

theorem decreasing_granule_position:
  assumes "data dp = Some d" and "d \<noteq> []" and "OggSFrame_init lib d = Some frame"
    and "truthy (header_frames self)" and "audio_data_buffer self \<noteq> []"
    and "granule_position frame < granule_position (last (audio_data_buffer self))"
    and "0 < sample_rate self" and "is_float (current_audio_buffer_seconds self)"
  shows "execute lib self dp dpm =
     \<lparr>raised = None,
      self_after = self\<lparr>audio_data_buffer := audio_data_buffer self @ [frame],
        current_audio_buffer_seconds := float_add (current_audio_buffer_seconds self)
          (int_truediv (granule_position frame
             - granule_position (last (audio_data_buffer self))) (sample_rate self))\<rparr>,
      dp_after = dp, dpm_after = dpm\<rparr>
   \<and> int_truediv (granule_position frame
         - granule_position (last (audio_data_buffer self))) (sample_rate self) < 0
   \<and> float_add (current_audio_buffer_seconds self)
         (int_truediv (granule_position frame
            - granule_position (last (audio_data_buffer self))) (sample_rate self))
       \<le> current_audio_buffer_seconds self"
proof -
  let ?delta = "int_truediv (granule_position frame
     - granule_position (last (audio_data_buffer self))) (sample_rate self)"
  have neg: "?delta < 0" using assms(6,7) by (intro int_truediv_neg) simp_all
  then have "\<not> 0 < ?delta" by simp
  then have "execute lib self dp dpm =
     \<lparr>raised = None,
      self_after = self\<lparr>audio_data_buffer := audio_data_buffer self @ [frame],
        current_audio_buffer_seconds := float_add (current_audio_buffer_seconds self) ?delta\<rparr>,
      dp_after = dp, dpm_after = dpm\<rparr>"
    using assms by (simp add: execute_def append_frame_ok Let_def)
  moreover have "float_add (current_audio_buffer_seconds self) ?delta
      \<le> current_audio_buffer_seconds self"
    using assms(8) neg by (intro float_add_nonpos) simp_all
  ultimately show ?thesis using neg by simp
qed


theorem decreasing_granule_position_witness:
  "current_audio_buffer_seconds (self_after (execute toy
      (feed toy init [toy_page 1 0, toy_page 2 0, toy_page 0 96000])
      \<lparr>data = Some (toy_page 0 48000)\<rparr> \<lparr>success = True, message = []\<rparr>))
     = float_add 2 (int_truediv (48000 - 96000) 48000)
   \<and> int_truediv (48000 - 96000) 48000 < 0"
  using decreasing_granule_position[of "\<lparr>data = Some (toy_page 0 48000)\<rparr>"
      "toy_page 0 48000" toy "\<lparr>raw_data = toy_page 0 48000, granule_position = 48000\<rparr>"
      "feed toy init [toy_page 1 0, toy_page 2 0, toy_page 0 96000]"
      "\<lparr>success = True, message = []\<rparr>"]
  by (simp add: exec_eval toy_eval fl_eval)

end
